theory Spec2Isabelle
  imports Main
begin

section \<open>JavaScript values\<close>

text \<open>
  The component handles JSON response bodies, option items and the caller's current
  value. They are embedded as one datatype of JavaScript values. Numbers are the
  integral ones that print in plain decimal notation (the ids and counters the
  component is used with); strings are byte strings. An object is the list of its own
  entries in \<open>Object.entries\<close> order.
\<close>

datatype jsval =
    JUndefined
  | JNull
  | JBool bool
  | JNum int
  | JStr string
  | JArr "jsval list"
  | JObj "(string \<times> jsval) list"

datatype error = TypeError

text \<open>Truthiness, as \<open>!val\<close>, \<open>a && b\<close> and \<open>c ? x : y\<close> test it.\<close>

fun truthy :: "jsval \<Rightarrow> bool" where
  "truthy JUndefined = False"
| "truthy JNull = False"
| "truthy (JBool b) = b"
| "truthy (JNum n) = (n \<noteq> 0)"
| "truthy (JStr s) = (s \<noteq> [])"
| "truthy (JArr xs) = True"
| "truthy (JObj kvs) = True"

fun typeof_js :: "jsval \<Rightarrow> string" where
  "typeof_js JUndefined = ''undefined''"
| "typeof_js JNull = ''object''"
| "typeof_js (JBool b) = ''boolean''"
| "typeof_js (JNum n) = ''number''"
| "typeof_js (JStr s) = ''string''"
| "typeof_js (JArr xs) = ''object''"
| "typeof_js (JObj kvs) = ''object''"

text \<open>Decimal numerals, as \<open>toString\<close> and \<open>String\<close> print an integral number.\<close>

definition digit_char :: "nat \<Rightarrow> char" where
  "digit_char d = ''0123456789'' ! (d mod 10)"

function show_nat :: "nat \<Rightarrow> string" where
  "show_nat n = (if n < 10 then [digit_char n] else show_nat (n div 10) @ [digit_char (n mod 10)])"
  by pat_completeness auto
termination
  by (relation "measure (\<lambda>n. n)") auto

declare show_nat.simps [simp del]

definition show_int :: "int \<Rightarrow> string" where
  "show_int i = (if i < 0 then CHR ''-'' # show_nat (nat (- i)) else show_nat (nat i))"

fun join :: "string \<Rightarrow> string list \<Rightarrow> string" where
  "join sep [] = []"
| "join sep [s] = s"
| "join sep (s # t # ss) = s @ sep @ join sep (t # ss)"

text \<open>
  \<open>String(v)\<close>; on a string or a number it is also \<open>v.toString()\<close>. An array prints its
  elements joined by commas, with \<open>null\<close> and \<open>undefined\<close> elements printed empty.
\<close>

fun String_js :: "jsval \<Rightarrow> string" where
  "String_js JUndefined = ''undefined''"
| "String_js JNull = ''null''"
| "String_js (JBool b) = (if b then ''true'' else ''false'')"
| "String_js (JNum n) = show_int n"
| "String_js (JStr s) = s"
| "String_js (JArr xs) =
     join '','' (map (\<lambda>x. if x = JUndefined \<or> x = JNull then [] else String_js x) xs)"
| "String_js (JObj kvs) = ''[object Object]''"

text \<open>
  \<open>a === b\<close> and the SameValueZero comparison of \<open>Array.prototype.includes\<close>, which agree
  on the values of this embedding. Primitive values compare by value. Objects and
  arrays compare by reference, which the embedding does not track: two object values
  stand for two distinct references.
\<close>

fun strict_equals :: "jsval \<Rightarrow> jsval \<Rightarrow> bool" where
  "strict_equals (JArr xs) b = False"
| "strict_equals (JObj kvs) b = False"
| "strict_equals a b = (a = b)"

definition includes_js :: "jsval list \<Rightarrow> jsval \<Rightarrow> bool" where
  "includes_js xs v = list_ex (\<lambda>x. strict_equals x v) xs"

section \<open>PathResolver\<close>

text \<open>
  \<open>PathOrFunction<T, R>\<close>: a dotted path or an extraction function of the caller. The
  functions a caller supplies (extractors and event callbacks) are taken to return
  normally, as their types \<open>(item: T) => R\<close> say; an exception raised inside the
  caller's own code is outside the component.
\<close>

datatype PathOrFunction = Path string | Fn "jsval \<Rightarrow> jsval"

text \<open>\<open>path.split('.')\<close>\<close>

fun splitPath :: "string \<Rightarrow> string list" where
  "splitPath [] = [[]]"
| "splitPath (c # cs) =
     (if c = CHR ''.'' then [] # splitPath cs
      else (case splitPath cs of [] \<Rightarrow> [[c]] | s # ss \<Rightarrow> (c # s) # ss))"

text \<open>
  \<open>value[key]\<close> on an indexable value: an own entry of an object, an element of an array
  under its decimal index, or the array's \<open>length\<close>. A key that is absent reads as
  \<open>undefined\<close>. Inherited (prototype) properties are not part of the embedding.
\<close>

fun indexable :: "jsval \<Rightarrow> bool" where
  "indexable (JObj kvs) = True"
| "indexable (JArr xs) = True"
| "indexable v = False"

definition array_index :: "jsval list \<Rightarrow> string \<Rightarrow> jsval" where
  "array_index xs k =
     (case filter (\<lambda>i. show_nat i = k) [0..<length xs] of
        [] \<Rightarrow> JUndefined
      | i # _ \<Rightarrow> xs ! i)"

fun getProp :: "jsval \<Rightarrow> string \<Rightarrow> jsval" where
  "getProp (JObj kvs) k = (case map_of kvs k of None \<Rightarrow> JUndefined | Some v \<Rightarrow> v)"
| "getProp (JArr xs) k = (if k = ''length'' then JNum (int (length xs)) else array_index xs k)"
| "getProp v k = JUndefined"

text \<open>
  Modelled from the spec: \<open>get\<close> is imported from the lodash library, whose code is not
  under src/. Section 4.1: traverse the item by splitting the path on \<open>.\<close>; at each
  segment, if the current value is not an indexable object, stop and return
  \<open>undefined\<close>; never fail.
\<close>

fun baseGet :: "jsval \<Rightarrow> string list \<Rightarrow> jsval" where
  "baseGet v [] = v"
| "baseGet v (k # ks) = (if indexable v then baseGet (getProp v k) ks else JUndefined)"

definition get :: "jsval \<Rightarrow> string \<Rightarrow> jsval" where
  "get item path = baseGet item (splitPath path)"

text \<open>
  \<^verbatim>\<open>
  const getValueFromPath = (item, pathOrFn) => {
    if (typeof pathOrFn === 'function') { return pathOrFn(item); }
    return get(item, pathOrFn);
  };
  \<close>
\<close>

fun getValueFromPath :: "jsval \<Rightarrow> PathOrFunction \<Rightarrow> jsval" where
  "getValueFromPath item (Fn pathOrFn) = pathOrFn item"
| "getValueFromPath item (Path pathOrFn) = get item pathOrFn"

section \<open>Array methods\<close>

text \<open>
  A method call such as \<open>options.find(...)\<close> on a value that is not an array raises a
  \<open>TypeError\<close>.
\<close>

fun as_array :: "jsval \<Rightarrow> error + jsval list" where
  "as_array (JArr xs) = Inr xs"
| "as_array v = Inl TypeError"

text \<open>\<open>xs.find(p)\<close>: the first element that satisfies \<open>p\<close>, \<open>undefined\<close> when there is none.\<close>

fun find_js :: "(jsval \<Rightarrow> bool) \<Rightarrow> jsval list \<Rightarrow> jsval" where
  "find_js p [] = JUndefined"
| "find_js p (x # xs) = (if p x then x else find_js p xs)"

text \<open>
  \<open>xs.flatMap(f)\<close>: a result of \<open>f\<close> that is an array contributes its elements, any other
  result contributes itself.
\<close>

fun flatMap_js :: "(jsval \<Rightarrow> jsval) \<Rightarrow> jsval list \<Rightarrow> jsval list" where
  "flatMap_js f [] = []"
| "flatMap_js f (x # xs) =
     (case f x of JArr ys \<Rightarrow> ys @ flatMap_js f xs | r \<Rightarrow> r # flatMap_js f xs)"

text \<open>\<open>a ?? b\<close>\<close>

definition nullish :: "jsval \<Rightarrow> jsval \<Rightarrow> jsval" where
  "nullish a b = (if a = JUndefined \<or> a = JNull then b else a)"

section \<open>UrlBuilder\<close>

text \<open>\<open>interface QueryParams { [key: string]: string | number }\<close>, in entry order.\<close>

datatype param = PStr string | PNum int

type_synonym QueryParams = "(string \<times> param) list"

fun toString_param :: "param \<Rightarrow> string" where
  "toString_param (PStr s) = s"
| "toString_param (PNum n) = show_int n"

text \<open>
  \<open>URLSearchParams\<close> is the platform's list of name-value pairs: \<open>append\<close> adds a pair at
  the end and \<open>toString\<close> serialises the list as \<open>application/x-www-form-urlencoded\<close>:
  letters, digits and \<open>* - . _\<close> stay, a space becomes \<open>+\<close>, every other byte becomes
  \<open>%XX\<close> in upper-case hexadecimal; a pair is \<open>name=value\<close> and pairs are joined by \<open>&\<close>.
\<close>

definition hex_char :: "nat \<Rightarrow> char" where
  "hex_char d = ''0123456789ABCDEF'' ! (d mod 16)"

definition unreserved :: "char \<Rightarrow> bool" where
  "unreserved c =
     (let n = (of_char c :: nat)
      in (48 \<le> n \<and> n \<le> 57) \<or> (65 \<le> n \<and> n \<le> 90) \<or> (97 \<le> n \<and> n \<le> 122)
         \<or> n = 42 \<or> n = 45 \<or> n = 46 \<or> n = 95)"

definition encode_byte :: "char \<Rightarrow> string" where
  "encode_byte c =
     (if unreserved c then [c]
      else if c = CHR '' '' then ''+''
      else [CHR ''%'', hex_char (of_char c div 16), hex_char (of_char c mod 16)])"

definition urlencode :: "string \<Rightarrow> string" where
  "urlencode s = concat (map encode_byte s)"

definition append_param :: "(string \<times> string) list \<Rightarrow> string \<Rightarrow> string \<Rightarrow> (string \<times> string) list" where
  "append_param searchParams name v = searchParams @ [(name, v)]"

definition encode_pair :: "string \<times> string \<Rightarrow> string" where
  "encode_pair kv = urlencode (fst kv) @ ''='' @ urlencode (snd kv)"

definition searchParams_toString :: "(string \<times> string) list \<Rightarrow> string" where
  "searchParams_toString searchParams = join ''&'' (map encode_pair searchParams)"

text \<open>
  \<^verbatim>\<open>
  const buildUrl = (baseUrl, params = {}, searchTerm, searchable) => {
    const searchParams = new URLSearchParams();
    if (searchable && searchTerm) { searchParams.append('search', searchTerm); }
    Object.entries(params).forEach(([key, value]) => {
      searchParams.append(key, value.toString());
    });
    const queryString = searchParams.toString();
    return queryString
      ? `${baseUrl}${baseUrl.includes('?') ? '&' : '?'}${queryString}` : baseUrl;
  };
  \<close>
  An omitted \<open>searchTerm\<close> behaves as the empty string and an omitted \<open>searchable\<close> as
  \<open>false\<close>: both are only tested for truthiness.
\<close>

definition buildUrl :: "string \<Rightarrow> QueryParams \<Rightarrow> string \<Rightarrow> bool \<Rightarrow> string" where
  "buildUrl baseUrl params searchTerm searchable =
     (let searchParams0 = [];
          searchParams1 =
            (if searchable \<and> searchTerm \<noteq> [] then append_param searchParams0 ''search'' searchTerm
             else searchParams0);
          searchParams2 =
            fold (\<lambda>(key, v) sp. append_param sp key (toString_param v)) params searchParams1;
          queryString = searchParams_toString searchParams2
      in if queryString \<noteq> []
         then baseUrl @ (if CHR ''?'' \<in> set baseUrl then ''&'' else ''?'') @ queryString
         else baseUrl)"

section \<open>Query key\<close>

text \<open>\<open>url: string | ((lastPage?: PageParam) => string)\<close>\<close>

datatype url_spec = UrlString string | UrlFunction "QueryParams option \<Rightarrow> string"

fun is_string_url :: "url_spec \<Rightarrow> bool" where
  "is_string_url (UrlString s) = True"
| "is_string_url (UrlFunction f) = False"

text \<open>The elements a query key is built from.\<close>

datatype keypart =
    KStr string
  | KFun "QueryParams option \<Rightarrow> string"
  | KParams QueryParams
  | KBool bool

text \<open>
  \<^verbatim>\<open>
  const baseQueryKey = ['async-autocomplete', url, queryParams, searchable];
  if (searchable) baseQueryKey.push(inputValue);
  \<close>
\<close>

definition baseQueryKey :: "url_spec \<Rightarrow> QueryParams \<Rightarrow> bool \<Rightarrow> string \<Rightarrow> keypart list" where
  "baseQueryKey url queryParams searchable inputValue =
     (let baseQueryKey0 =
            [KStr ''async-autocomplete'',
             (case url of UrlString s \<Rightarrow> KStr s | UrlFunction f \<Rightarrow> KFun f),
             KParams queryParams,
             KBool searchable]
      in if searchable then baseQueryKey0 @ [KStr inputValue] else baseQueryKey0)"

text \<open>
  Modelled from the spec: the comparison of two query keys is done by the query
  library, which is not under src/. Section 3: two requests are the same query iff
  their QueryKeys are structurally equal, with deep equality on the parameter map.
  Two parameter maps are deeply equal when every key of either reads the same in both.
  A url function in a key is equal to the same function only.
\<close>

definition params_equal :: "QueryParams \<Rightarrow> QueryParams \<Rightarrow> bool" where
  "params_equal p q = list_all (\<lambda>k. map_of p k = map_of q k) (map fst p @ map fst q)"

fun keypart_equal :: "keypart \<Rightarrow> keypart \<Rightarrow> bool" where
  "keypart_equal (KStr a) (KStr b) = (a = b)"
| "keypart_equal (KFun f) (KFun g) = (f = g)"
| "keypart_equal (KParams p) (KParams q) = params_equal p q"
| "keypart_equal (KBool a) (KBool b) = (a = b)"
| "keypart_equal a b = False"

definition querykey_equal :: "keypart list \<Rightarrow> keypart list \<Rightarrow> bool" where
  "querykey_equal k1 k2 = list_all2 keypart_equal k1 k2"

section \<open>Options derivation\<close>

text \<open>\<open>optionsPath ? ... : ...\<close>: an absent \<open>optionsPath\<close> and the empty path are falsy.\<close>

fun optionsPath_given :: "PathOrFunction option \<Rightarrow> bool" where
  "optionsPath_given None = False"
| "optionsPath_given (Some (Path p)) = (p \<noteq> [])"
| "optionsPath_given (Some (Fn f)) = True"

definition extract_options :: "PathOrFunction option \<Rightarrow> jsval \<Rightarrow> jsval" where
  "extract_options optionsPath body =
     (case optionsPath of
        None \<Rightarrow> body
      | Some p \<Rightarrow> if optionsPath_given optionsPath then getValueFromPath body p else body)"

text \<open>
  \<^verbatim>\<open>
  const options = React.useMemo(() => {
    if (infinite && infiniteQuery.data) {
      const allPages = infiniteQuery.data.pages.flatMap(page =>
        optionsPath ? getValueFromPath(page, optionsPath) : page);
      return allPages;
    }
    if (regularQuery.data) {
      return optionsPath ? getValueFromPath(regularQuery.data, optionsPath)
                         : regularQuery.data;
    }
    return [];
  }, ...);
  \<close>
  \<open>infiniteQuery.data\<close> is \<open>None\<close> while it is \<open>undefined\<close> and otherwise holds the pages;
  \<open>regularQuery.data\<close> is a value (\<open>undefined\<close> until a response has settled).
\<close>

definition options :: "bool \<Rightarrow> jsval list option \<Rightarrow> jsval \<Rightarrow> PathOrFunction option \<Rightarrow> jsval" where
  "options infinite_flag infiniteData regularData optionsPath =
     (if infinite_flag \<and> infiniteData \<noteq> None then
        JArr (flatMap_js (extract_options optionsPath) (the infiniteData))
      else if truthy regularData then extract_options optionsPath regularData
      else JArr [])"

section \<open>SelectionResolver\<close>

text \<open>
  \<^verbatim>\<open>
  const findOptionByValue = (val) => {
    if (!val) return null;
    if (typeof val === 'string' || typeof val === 'number') {
      return options.find(option =>
        String(getValueFromPath(option, valueField)) === val.toString()) ?? null;
    }
    if (Array.isArray(val)) {
      if (typeof val[0] === 'string') {
        return options.filter(option =>
          val.includes(String(getValueFromPath(option, valueField))));
      }
      if (typeof val[0] === 'number') {
        return options.filter(option =>
          val.includes(getValueFromPath(option, valueField)));
      }
      return val;
    }
    return val;
  }
  \<close>
  \<open>options\<close> and \<open>valueField\<close> are variables of the enclosing component; here they are
  parameters. \<open>options\<close> is a value, since the options derivation can yield something
  that is not an array.
\<close>

definition matches_scalar :: "PathOrFunction \<Rightarrow> jsval \<Rightarrow> jsval \<Rightarrow> bool" where
  "matches_scalar valueField val option =
     (String_js (getValueFromPath option valueField) = String_js val)"

definition matches_strings :: "PathOrFunction \<Rightarrow> jsval list \<Rightarrow> jsval \<Rightarrow> bool" where
  "matches_strings valueField vals option =
     includes_js vals (JStr (String_js (getValueFromPath option valueField)))"

definition matches_numbers :: "PathOrFunction \<Rightarrow> jsval list \<Rightarrow> jsval \<Rightarrow> bool" where
  "matches_numbers valueField vals option =
     includes_js vals (getValueFromPath option valueField)"

definition first_elem :: "jsval list \<Rightarrow> jsval" where
  "first_elem vs = (case vs of [] \<Rightarrow> JUndefined | v # _ \<Rightarrow> v)"

definition findOptionByValue :: "jsval \<Rightarrow> PathOrFunction \<Rightarrow> jsval \<Rightarrow> error + jsval" where
  "findOptionByValue opts valueField val =
     (if \<not> truthy val then Inr JNull
      else if typeof_js val = ''string'' \<or> typeof_js val = ''number'' then
        (case as_array opts of
           Inl e \<Rightarrow> Inl e
         | Inr os \<Rightarrow> Inr (nullish (find_js (matches_scalar valueField val) os) JNull))
      else
        (case val of
           JArr vals \<Rightarrow>
             (if typeof_js (first_elem vals) = ''string'' then
                (case as_array opts of
                   Inl e \<Rightarrow> Inl e
                 | Inr os \<Rightarrow> Inr (JArr (filter (matches_strings valueField vals) os)))
              else if typeof_js (first_elem vals) = ''number'' then
                (case as_array opts of
                   Inl e \<Rightarrow> Inl e
                 | Inr os \<Rightarrow> Inr (JArr (filter (matches_numbers valueField vals) os)))
              else Inr val)
         | _ \<Rightarrow> Inr val))"

text \<open>
  The equality predicate handed to the list renderer.
  \<^verbatim>\<open>
  isOptionEqualToValue={option => {
    if (!value) return false
    if (typeof value === "number") value = value.toString();
    if (typeof value === "string")
      return String(getValueFromPath(option, valueField)) === value;
    if (!Array.isArray(value))
      return getValueFromPath(option, valueField) === getValueFromPath(value, valueField);
    return value.some(v => {
      if (typeof v === "string" || typeof v === "number")
        return String(getValueFromPath(option, valueField)) === v.toString();
      return getValueFromPath(option, valueField) === getValueFromPath(v, valueField);
    })
  }}
  \<close>
\<close>

definition equal_to_member :: "PathOrFunction \<Rightarrow> jsval \<Rightarrow> jsval \<Rightarrow> bool" where
  "equal_to_member valueField option v =
     (if typeof_js v = ''string'' \<or> typeof_js v = ''number''
      then String_js (getValueFromPath option valueField) = String_js v
      else strict_equals (getValueFromPath option valueField) (getValueFromPath v valueField))"

definition isOptionEqualToValue :: "jsval \<Rightarrow> PathOrFunction \<Rightarrow> jsval \<Rightarrow> bool" where
  "isOptionEqualToValue val valueField option =
     (if \<not> truthy val then False
      else
        (let val1 = (if typeof_js val = ''number'' then JStr (String_js val) else val)
         in if typeof_js val1 = ''string''
            then strict_equals (JStr (String_js (getValueFromPath option valueField))) val1
            else (case val1 of
                    JArr vs \<Rightarrow> list_ex (equal_to_member valueField option) vs
                  | _ \<Rightarrow> strict_equals (getValueFromPath option valueField)
                                       (getValueFromPath val1 valueField))))"

section \<open>Event handlers and controller state\<close>

text \<open>What a handler asks of its collaborators: the calls it makes, in order.\<close>

datatype effect =
    CallOnChange jsval jsval
  | CallOnFocus
  | CallFetchNextPage

text \<open>
  \<^verbatim>\<open>
  const handleChange = (_event, option, reason, details) => {
    if (option && onChange) {
      if (Array.isArray(option)) {
        const values = option.map(item => getValueFromPath(item, valueField));
        onChange(values, option);
      } else {
        const value = getValueFromPath(option, valueField);
        onChange(value, option);
      }
    }
  };
  \<close>
  \<open>onChange_given\<close> says whether the caller configured an \<open>onChange\<close> callback.
\<close>

definition handleChange :: "bool \<Rightarrow> PathOrFunction \<Rightarrow> jsval \<Rightarrow> effect list" where
  "handleChange onChange_given valueField option =
     (if truthy option \<and> onChange_given then
        (case option of
           JArr items \<Rightarrow>
             [CallOnChange (JArr (map (\<lambda>item. getValueFromPath item valueField) items)) option]
         | _ \<Rightarrow> [CallOnChange (getValueFromPath option valueField) option])
      else [])"

text \<open>
  The scrolled list (\<open>event.currentTarget\<close>) and the state of the infinite query that
  the scroll handler reads. Scroll metrics are taken as integral pixel counts.
\<close>

record scroll_target =
  scrollTop :: int
  clientHeight :: int
  scrollHeight :: int

record infinite_query =
  hasNextPage :: bool
  isFetchingNextPage :: bool

text \<open>
  \<^verbatim>\<open>
  const handleScroll = (event) => {
    const list = event.currentTarget;
    if (infinite &&
        list.scrollTop + list.clientHeight >= list.scrollHeight - 50 &&
        infiniteQuery.hasNextPage &&
        !infiniteQuery.isFetchingNextPage) {
      infiniteQuery.fetchNextPage();
    }
  };
  \<close>
\<close>

definition handleScroll :: "bool \<Rightarrow> infinite_query \<Rightarrow> scroll_target \<Rightarrow> effect list" where
  "handleScroll infinite_flag infiniteQuery list =
     (if infinite_flag
         \<and> scrollTop list + clientHeight list \<ge> scrollHeight list - 50
         \<and> hasNextPage infiniteQuery
         \<and> \<not> isFetchingNextPage infiniteQuery
      then [CallFetchNextPage]
      else [])"

text \<open>
  The component's own state:
  \<^verbatim>\<open>
  const [inputValue, setInputValue] = React.useState('');
  const [focusedInput, setFocusedInput] = React.useState(false);
  \<close>
\<close>

record component_state =
  inputValue :: string
  focusedInput :: bool

definition initial_state :: component_state where
  "initial_state = \<lparr>inputValue = [], focusedInput = False\<rparr>"

text \<open>
  \<^verbatim>\<open>
  const handleFocus = (e) => {
    if (onFocus) onFocus(e);
    setFocusedInput(true);
  };
  \<close>
\<close>

definition handleFocus :: "bool \<Rightarrow> component_state \<Rightarrow> component_state \<times> effect list" where
  "handleFocus onFocus_given s =
     (s\<lparr>focusedInput := True\<rparr>, if onFocus_given then [CallOnFocus] else [])"

text \<open>\<open>onInputChange={(_event, newValue) => setInputValue(newValue)}\<close>\<close>

definition handleInputChange :: "string \<Rightarrow> component_state \<Rightarrow> component_state" where
  "handleInputChange newValue s = s\<lparr>inputValue := newValue\<rparr>"

text \<open>
  The events the list renderer emits. The component writes its state in the focus and
  input handlers only; selection and scroll events leave it as it is, and so does a
  blur, for which the component registers no handler.
\<close>

datatype event =
    FocusEvent
  | InputChangeEvent string
  | ChangeEvent jsval
  | ScrollEvent scroll_target
  | BlurEvent

fun step :: "bool \<Rightarrow> component_state \<Rightarrow> event \<Rightarrow> component_state" where
  "step onFocus_given s FocusEvent = fst (handleFocus onFocus_given s)"
| "step onFocus_given s (InputChangeEvent newValue) = handleInputChange newValue s"
| "step onFocus_given s (ChangeEvent option) = s"
| "step onFocus_given s (ScrollEvent list) = s"
| "step onFocus_given s BlurEvent = s"

definition run :: "bool \<Rightarrow> event list \<Rightarrow> component_state" where
  "run onFocus_given events = foldl (step onFocus_given) initial_state events"

text \<open>
  The \<open>enabled\<close> options of the two queries:
  \<^verbatim>\<open>
  enabled: focusedInput && !infinite && typeof url === 'string',   // useQuery
  enabled: focusedInput && infinite,                               // useInfiniteQuery
  \<close>
\<close>

definition regularQuery_enabled :: "url_spec \<Rightarrow> bool \<Rightarrow> component_state \<Rightarrow> bool" where
  "regularQuery_enabled url infinite_flag s =
     (focusedInput s \<and> \<not> infinite_flag \<and> is_string_url url)"

definition infiniteQuery_enabled :: "bool \<Rightarrow> component_state \<Rightarrow> bool" where
  "infiniteQuery_enabled infinite_flag s = (focusedInput s \<and> infinite_flag)"

definition fetch_enabled :: "url_spec \<Rightarrow> bool \<Rightarrow> component_state \<Rightarrow> bool" where
  "fetch_enabled url infinite_flag s =
     (regularQuery_enabled url infinite_flag s \<or> infiniteQuery_enabled infinite_flag s)"

text \<open>Two url functions, for concrete configurations.\<close>

definition users_page_url :: "QueryParams option \<Rightarrow> string" where
  "users_page_url pageParam = ''http://x/y''"

definition posts_page_url :: "QueryParams option \<Rightarrow> string" where
  "posts_page_url pageParam = ''http://x/z''"

section \<open>Auxiliary facts\<close>

lemmas numeral_defs = show_int_def show_nat.simps digit_char_def

lemma find_js_none: "\<forall>x\<in>set xs. \<not> p x \<Longrightarrow> find_js p xs = JUndefined"
  by (induction xs) auto

lemma find_js_first:
  "i < length xs \<Longrightarrow> p (xs ! i) \<Longrightarrow> \<forall>j<i. \<not> p (xs ! j) \<Longrightarrow> find_js p xs = xs ! i"
proof (induction xs arbitrary: i)
  case Nil
  then show ?case by simp
next
  case (Cons x xs)
  show ?case
  proof (cases i)
    case 0
    with Cons.prems show ?thesis by simp
  next
    case (Suc k)
    with Cons.prems have "\<not> p x" by auto
    moreover have "find_js p xs = xs ! k"
      using Cons.prems Suc by (intro Cons.IH) auto
    ultimately show ?thesis using Suc by simp
  qed
qed

lemma includes_js_string: "includes_js vals (JStr s) \<longleftrightarrow> JStr s \<in> set vals"
proof -
  have "strict_equals x (JStr s) \<longleftrightarrow> x = JStr s" for x
    by (cases x) auto
  then show ?thesis
    by (simp add: includes_js_def list_ex_iff)
qed

lemma baseGet_undefined: "baseGet JUndefined ks = JUndefined"
  by (cases ks) simp_all

lemma baseGet_append: "baseGet v (ks1 @ ks2) = baseGet (baseGet v ks1) ks2"
  by (induction ks1 arbitrary: v) (simp_all add: baseGet_undefined)

lemma flatMap_js_append: "flatMap_js f (xs @ ys) = flatMap_js f xs @ flatMap_js f ys"
  by (induction xs) (simp_all split: jsval.splits)

text \<open>A page on which the extractor yields \<open>undefined\<close> contributes one \<open>undefined\<close> element.\<close>

lemma flatMap_js_unresolved_page:
  "f x = JUndefined \<Longrightarrow>
     flatMap_js f (xs @ x # ys) = flatMap_js f xs @ JUndefined # flatMap_js f ys"
  by (simp add: flatMap_js_append)

lemma options_unresolved_single:
  "optionsPath_given (Some spec) \<Longrightarrow> truthy body \<Longrightarrow>
     options False infiniteData body (Some spec) = getValueFromPath body spec"
  by (simp add: options_def extract_options_def)

lemma options_unresolved_paginated:
  "optionsPath_given (Some spec) \<Longrightarrow> getValueFromPath page spec = JUndefined \<Longrightarrow>
     options True (Some (before @ page # after)) regularData (Some spec)
       = JArr (flatMap_js (extract_options (Some spec)) before @ JUndefined
               # flatMap_js (extract_options (Some spec)) after)"
  by (simp add: options_def extract_options_def flatMap_js_append)

lemma url_functions_differ: "users_page_url \<noteq> posts_page_url"
  by (simp add: fun_eq_iff users_page_url_def posts_page_url_def)

lemma hex_char_unreserved: "unreserved (hex_char d)"
proof -
  have "d mod 16 = 0 \<or> d mod 16 = 1 \<or> d mod 16 = 2 \<or> d mod 16 = 3 \<or> d mod 16 = 4
      \<or> d mod 16 = 5 \<or> d mod 16 = 6 \<or> d mod 16 = 7 \<or> d mod 16 = 8 \<or> d mod 16 = 9
      \<or> d mod 16 = 10 \<or> d mod 16 = 11 \<or> d mod 16 = 12 \<or> d mod 16 = 13
      \<or> d mod 16 = 14 \<or> d mod 16 = 15"
    by presburger
  then show ?thesis
    by (elim disjE) (simp_all add: hex_char_def unreserved_def)
qed

lemma encode_byte_safe:
  "c' \<in> set (encode_byte c) \<Longrightarrow> unreserved c' \<or> c' = CHR ''%'' \<or> c' = CHR ''+''"
  by (auto simp: encode_byte_def hex_char_unreserved split: if_splits)

lemma urlencode_safe:
  "\<forall>c\<in>set (urlencode s). unreserved c \<or> c = CHR ''%'' \<or> c = CHR ''+''"
  by (auto simp: urlencode_def dest: encode_byte_safe)

lemma urlencode_unreserved: "\<forall>c\<in>set s. unreserved c \<Longrightarrow> urlencode s = s"
  by (induction s) (simp_all add: urlencode_def encode_byte_def)

lemma unreserved_chars:
  "unreserved c \<longleftrightarrow>
     c \<in> set ''abcdefghijklmnopqrstuvwxyzABCDEFGHIJKLMNOPQRSTUVWXYZ0123456789*-._''"
  by (cases c) (auto simp: unreserved_def)

lemma params_equal_iff: "params_equal p q \<longleftrightarrow> map_of p = map_of q"
proof
  assume eq: "params_equal p q"
  show "map_of p = map_of q"
  proof
    fix k
    show "map_of p k = map_of q k"
    proof (cases "k \<in> fst ` set p \<union> fst ` set q")
      case True
      with eq show ?thesis
        by (auto simp: params_equal_def list_all_iff)
    next
      case False
      then have "map_of p k = None" and "map_of q k = None"
        by (simp_all add: map_of_eq_None_iff)
      then show ?thesis by simp
    qed
  qed
next
  assume "map_of p = map_of q"
  then show "params_equal p q"
    by (simp add: params_equal_def list_all_iff)
qed

lemma fold_append_param:
  "fold (\<lambda>(key, v) sp. append_param sp key (toString_param v)) params sp
     = sp @ map (\<lambda>(key, v). (key, toString_param v)) params"
  by (induction params arbitrary: sp) (auto simp: append_param_def)

lemma join_nonempty: "s \<noteq> [] \<Longrightarrow> join sep (s # ss) \<noteq> []"
  by (cases ss) simp_all

lemma searchParams_toString_empty: "searchParams_toString ps = [] \<longleftrightarrow> ps = []"
proof (cases ps)
  case Nil
  then show ?thesis by (simp add: searchParams_toString_def)
next
  case (Cons kv rest)
  have "encode_pair kv \<noteq> []" by (simp add: encode_pair_def)
  then show ?thesis
    using Cons join_nonempty [of "encode_pair kv" "''&''" "map encode_pair rest"]
    by (simp add: searchParams_toString_def)
qed

lemma foldl_focus_iff:
  "focusedInput (foldl (step g) s es) \<longleftrightarrow> focusedInput s \<or> FocusEvent \<in> set es"
proof (induction es arbitrary: s)
  case Nil
  then show ?case by simp
next
  case (Cons e es)
  then show ?case
    by (cases e) (auto simp: handleFocus_def handleInputChange_def)
qed

lemma run_focus_iff: "focusedInput (run g es) \<longleftrightarrow> FocusEvent \<in> set es"
  by (simp add: run_def foldl_focus_iff initial_state_def)

section \<open>Query key\<close>

text \<open>
  C1. For every pair of configurations, with a string url or a url function, the
  query keys built for them are structurally equal exactly when the urls are equal,
  the parameter maps hold the same entries, the searchable flags are equal and, when
  searchable, the search texts are equal. So a change of any one of these gives a
  structurally different key, and equal components give equal keys; the search text
  does not matter when searchable is false.
\<close>

theorem baseQueryKey_sensitive:
  "querykey_equal (baseQueryKey url1 p1 s1 t1) (baseQueryKey url2 p2 s2 t2)
     \<longleftrightarrow> url1 = url2 \<and> map_of p1 = map_of p2 \<and> s1 = s2 \<and> (s1 \<longrightarrow> t1 = t2)"
  by (cases url1; cases url2; cases s1; cases s2)
     (auto simp: querykey_equal_def baseQueryKey_def params_equal_iff)

theorem baseQueryKey_sensitive_witness:
  "querykey_equal
     (baseQueryKey (UrlString ''http://x/y'') [(''a'', PNum 1), (''b'', PStr ''c'')] True ''foo'')
     (baseQueryKey (UrlString ''http://x/y'') [(''b'', PStr ''c''), (''a'', PNum 1)] True ''foo'')
   \<and> \<not> querykey_equal
     (baseQueryKey (UrlString ''http://x/y'') [(''a'', PNum 1)] True ''foo'')
     (baseQueryKey (UrlString ''http://x/y'') [(''a'', PNum 1)] True ''fo'')
   \<and> \<not> querykey_equal
     (baseQueryKey (UrlString ''http://x/y'') [(''a'', PNum 1)] False ''foo'')
     (baseQueryKey (UrlString ''http://x/y'') [(''a'', PNum 2)] False ''foo'')
   \<and> \<not> querykey_equal
     (baseQueryKey (UrlString ''http://x/y'') [(''a'', PNum 1)] False ''foo'')
     (baseQueryKey (UrlString ''http://x/z'') [(''a'', PNum 1)] False ''foo'')
   \<and> \<not> querykey_equal
     (baseQueryKey (UrlString ''http://x/y'') [(''a'', PNum 1)] False ''foo'')
     (baseQueryKey (UrlString ''http://x/y'') [(''a'', PNum 1)] True ''foo'')
   \<and> querykey_equal
     (baseQueryKey (UrlFunction users_page_url) [(''a'', PNum 1)] False ''foo'')
     (baseQueryKey (UrlFunction users_page_url) [(''a'', PNum 1)] False ''bar'')
   \<and> \<not> querykey_equal
     (baseQueryKey (UrlFunction users_page_url) [(''a'', PNum 1)] False ''foo'')
     (baseQueryKey (UrlFunction posts_page_url) [(''a'', PNum 1)] False ''foo'')
   \<and> \<not> querykey_equal
     (baseQueryKey (UrlFunction users_page_url) [(''a'', PNum 1)] False ''foo'')
     (baseQueryKey (UrlString ''http://x/y'') [(''a'', PNum 1)] False ''foo'')"
  using baseQueryKey_sensitive [of "UrlString ''http://x/y''"
      "[(''a'', PNum 1), (''b'', PStr ''c'')]" True "''foo''"
      "UrlString ''http://x/y''" "[(''b'', PStr ''c''), (''a'', PNum 1)]" True "''foo''"]
    baseQueryKey_sensitive [of "UrlString ''http://x/y''" "[(''a'', PNum 1)]" True "''foo''"
      "UrlString ''http://x/y''" "[(''a'', PNum 1)]" True "''fo''"]
    baseQueryKey_sensitive [of "UrlString ''http://x/y''" "[(''a'', PNum 1)]" False "''foo''"
      "UrlString ''http://x/y''" "[(''a'', PNum 2)]" False "''foo''"]
    baseQueryKey_sensitive [of "UrlString ''http://x/y''" "[(''a'', PNum 1)]" False "''foo''"
      "UrlString ''http://x/z''" "[(''a'', PNum 1)]" False "''foo''"]
    baseQueryKey_sensitive [of "UrlString ''http://x/y''" "[(''a'', PNum 1)]" False "''foo''"
      "UrlString ''http://x/y''" "[(''a'', PNum 1)]" True "''foo''"]
    baseQueryKey_sensitive [of "UrlFunction users_page_url" "[(''a'', PNum 1)]" False "''foo''"
      "UrlFunction users_page_url" "[(''a'', PNum 1)]" False "''bar''"]
    baseQueryKey_sensitive [of "UrlFunction users_page_url" "[(''a'', PNum 1)]" False "''foo''"
      "UrlFunction posts_page_url" "[(''a'', PNum 1)]" False "''foo''"]
    baseQueryKey_sensitive [of "UrlFunction users_page_url" "[(''a'', PNum 1)]" False "''foo''"
      "UrlString ''http://x/y''" "[(''a'', PNum 1)]" False "''foo''"]
  by (simp add: fun_eq_iff users_page_url_def posts_page_url_def)

section \<open>Selection resolution\<close>

text \<open>
  C2, as the code has it. For a scalar current value that is truthy (a non-empty
  string or a number other than 0) and a list of options none of which is
  \<open>undefined\<close>: when no option's value field prints as the scalar does, the resolver
  returns \<open>null\<close>; otherwise it returns the first option whose value field, extracted
  and stringified, equals the stringified scalar. A \<open>null\<close> or \<open>undefined\<close> current
  value resolves to \<open>null\<close> whatever the options are.
\<close>

theorem findOptionByValue_scalar:
  assumes scalar: "typeof_js val = ''string'' \<or> typeof_js val = ''number''"
    and nonempty: "truthy val"
    and present: "JUndefined \<notin> set os"
  shows "((\<forall>option\<in>set os. String_js (getValueFromPath option valueField) \<noteq> String_js val)
            \<longrightarrow> findOptionByValue (JArr os) valueField val = Inr JNull)
       \<and> (i < length os
            \<and> String_js (getValueFromPath (os ! i) valueField) = String_js val
            \<and> (\<forall>j<i. String_js (getValueFromPath (os ! j) valueField) \<noteq> String_js val)
            \<longrightarrow> findOptionByValue (JArr os) valueField val = Inr (os ! i))
       \<and> findOptionByValue opts valueField JNull = Inr JNull
       \<and> findOptionByValue opts valueField JUndefined = Inr JNull"
proof -
  have sel: "findOptionByValue (JArr os) valueField val
      = Inr (nullish (find_js (matches_scalar valueField val) os) JNull)"
    using scalar nonempty by (simp add: findOptionByValue_def)
  have none: "findOptionByValue (JArr os) valueField val = Inr JNull"
    if "\<forall>option\<in>set os. String_js (getValueFromPath option valueField) \<noteq> String_js val"
  proof -
    from that have "find_js (matches_scalar valueField val) os = JUndefined"
      by (intro find_js_none) (simp add: matches_scalar_def)
    then show ?thesis
      by (simp add: sel nullish_def)
  qed
  have first: "findOptionByValue (JArr os) valueField val = Inr (os ! i)"
    if h: "i < length os
         \<and> String_js (getValueFromPath (os ! i) valueField) = String_js val
         \<and> (\<forall>j<i. String_js (getValueFromPath (os ! j) valueField) \<noteq> String_js val)"
  proof -
    from h have "find_js (matches_scalar valueField val) os = os ! i"
      by (intro find_js_first) (simp_all add: matches_scalar_def)
    moreover have "os ! i \<noteq> JUndefined"
      using h present by (metis nth_mem)
    ultimately show ?thesis
      by (simp add: sel nullish_def)
  qed
  have empty: "findOptionByValue opts valueField JNull = Inr JNull"
    "findOptionByValue opts valueField JUndefined = Inr JNull"
    by (simp_all add: findOptionByValue_def)
  from none first empty show ?thesis by blast
qed

text \<open>
  The theorem on the options \<open>[{id: 1, name: "a"}, {id: 2, name: "b"}]\<close>: the value 1
  resolves to the first item and the absent value 3 to \<open>null\<close>.
\<close>

theorem findOptionByValue_scalar_witness:
  "typeof_js (JNum 1) = ''number'' \<and> truthy (JNum 1)
   \<and> JUndefined \<notin> set [JObj [(''id'', JNum 1), (''name'', JStr ''a'')],
                           JObj [(''id'', JNum 2), (''name'', JStr ''b'')]]
   \<and> findOptionByValue
     (JArr [JObj [(''id'', JNum 1), (''name'', JStr ''a'')],
            JObj [(''id'', JNum 2), (''name'', JStr ''b'')]])
     (Path ''id'') (JNum 1)
     = Inr (JObj [(''id'', JNum 1), (''name'', JStr ''a'')])
   \<and> findOptionByValue
     (JArr [JObj [(''id'', JNum 1), (''name'', JStr ''a'')],
            JObj [(''id'', JNum 2), (''name'', JStr ''b'')]])
     (Path ''id'') (JNum 3)
     = Inr JNull"
  using findOptionByValue_scalar [where val = "JNum 1" and i = 0 and valueField = "Path ''id''"
      and os = "[JObj [(''id'', JNum 1), (''name'', JStr ''a'')],
                 JObj [(''id'', JNum 2), (''name'', JStr ''b'')]]"]
    findOptionByValue_scalar [where val = "JNum 3" and valueField = "Path ''id''"
      and os = "[JObj [(''id'', JNum 1), (''name'', JStr ''a'')],
                 JObj [(''id'', JNum 2), (''name'', JStr ''b'')]]"]
  by (simp add: get_def numeral_defs)

text \<open>
  The scalar 0 against an option whose id is 0: the option's value field prints as the
  scalar does, and the resolver returns \<open>null\<close>, not the option.
\<close>

theorem findOptionByValue_scalar_counterexample:
  "typeof_js (JNum 0) = ''number''
   \<and> String_js (getValueFromPath (JObj [(''id'', JNum 0)]) (Path ''id'')) = String_js (JNum 0)
   \<and> findOptionByValue (JArr [JObj [(''id'', JNum 0)]]) (Path ''id'') (JNum 0) = Inr JNull
   \<and> findOptionByValue (JArr [JObj [(''id'', JNum 0)]]) (Path ''id'') (JNum 0)
       \<noteq> Inr (JObj [(''id'', JNum 0)])"
  by (simp add: findOptionByValue_def get_def)

text \<open>
  C3. A list of scalar ids should select the options whose stringified value is among
  the stringified ids. For a list of numbers the code compares the extracted value
  itself, not its string: with the options \<open>[{id: "1"}]\<close> and the value \<open>[1]\<close> the
  option's id prints as a member of the printed id list, yet the resolver returns the
  empty list. The scalar lookup of \<open>1\<close> and the equality predicate on \<open>[1]\<close> both
  stringify and do match that option.
\<close>

theorem findOptionByValue_number_list:
  "findOptionByValue (JArr [JObj [(''id'', JStr ''1'')]]) (Path ''id'') (JArr [JNum 1])
     = Inr (JArr [])
   \<and> String_js (getValueFromPath (JObj [(''id'', JStr ''1'')]) (Path ''id''))
       \<in> set (map String_js [JNum 1])
   \<and> findOptionByValue (JArr [JObj [(''id'', JStr ''1'')]]) (Path ''id'') (JNum 1)
     = Inr (JObj [(''id'', JStr ''1'')])
   \<and> isOptionEqualToValue (JArr [JNum 1]) (Path ''id'') (JObj [(''id'', JStr ''1'')])"
  by (simp add: findOptionByValue_def first_elem_def matches_numbers_def matches_scalar_def
      includes_js_def isOptionEqualToValue_def equal_to_member_def nullish_def get_def
      numeral_defs)

text \<open>
  For a list of strings the resolver does what is asked of it: it keeps, in the order
  of the options, exactly those whose stringified value is in the list.
\<close>

lemma findOptionByValue_string_list:
  assumes "vals = JStr s # rest" and "\<forall>v\<in>set vals. typeof_js v = ''string''"
  shows "findOptionByValue (JArr os) valueField (JArr vals)
     = Inr (JArr (filter (\<lambda>option. String_js (getValueFromPath option valueField)
                            \<in> set (map String_js vals)) os))"
proof -
  have str: "\<exists>t. v = JStr t" if "v \<in> set vals" for v
    using assms(2) that by (cases v) auto
  have "JStr t \<in> set vals \<longleftrightarrow> t \<in> set (map String_js vals)" for t
  proof
    assume "JStr t \<in> set vals"
    then have "String_js (JStr t) \<in> String_js ` set vals" by (rule imageI)
    then show "t \<in> set (map String_js vals)" by simp
  next
    assume "t \<in> set (map String_js vals)"
    then obtain v where v: "v \<in> set vals" "String_js v = t" by auto
    from str [OF v(1)] obtain u where "v = JStr u" by blast
    with v show "JStr t \<in> set vals" by simp
  qed
  then have "matches_strings valueField vals
      = (\<lambda>option. String_js (getValueFromPath option valueField) \<in> set (map String_js vals))"
    by (simp add: fun_eq_iff matches_strings_def includes_js_string)
  then show ?thesis
    using assms(1) by (simp add: findOptionByValue_def first_elem_def)
qed

text \<open>
  C9. A falsy scalar current value, the number 0 or the empty string, resolves to
  \<open>null\<close> whatever the options are: the emptiness test comes before the lookup. This
  holds also when an option's value field prints as \<open>0\<close> or as the empty string, as in
  the two concrete lookups.
\<close>

theorem findOptionByValue_falsy_scalar:
  "findOptionByValue opts valueField (JNum 0) = Inr JNull
   \<and> findOptionByValue opts valueField (JStr []) = Inr JNull
   \<and> findOptionByValue (JArr [JObj [(''id'', JNum 0)]]) (Path ''id'') (JNum 0) = Inr JNull
   \<and> String_js (get (JObj [(''id'', JNum 0)]) ''id'') = String_js (JNum 0)
   \<and> findOptionByValue (JArr [JObj [(''id'', JStr [])]]) (Path ''id'') (JStr []) = Inr JNull
   \<and> String_js (get (JObj [(''id'', JStr [])]) ''id'') = String_js (JStr [])"
  by (simp add: findOptionByValue_def get_def)

section \<open>Options derivation\<close>

text \<open>
  C4. An \<open>optionsPath\<close> that does not traverse the response should give the empty
  options list and no crash. The code hands on what the path resolver returned. With
  the response \<open>{data: []}\<close> and the options path \<open>items\<close> the path resolves to no value
  and the derived options are \<open>undefined\<close>, not the empty list; resolving the current
  value 1 against them, as the next render does, raises a \<open>TypeError\<close>. In paginated
  mode, of the pages \<open>{items: [{id: 1}]}\<close> and \<open>{data: []}\<close> the second contributes an
  \<open>undefined\<close> element to the options.
\<close>

theorem options_unresolved_path_undefined:
  "get (JObj [(''data'', JArr [])]) ''items'' = JUndefined
   \<and> options False None (JObj [(''data'', JArr [])]) (Some (Path ''items'')) = JUndefined
   \<and> options False None (JObj [(''data'', JArr [])]) (Some (Path ''items'')) \<noteq> JArr []
   \<and> findOptionByValue
         (options False None (JObj [(''data'', JArr [])]) (Some (Path ''items'')))
         (Path ''id'') (JNum 1) = Inl TypeError
   \<and> options True
         (Some [JObj [(''items'', JArr [JObj [(''id'', JNum 1)]])], JObj [(''data'', JArr [])]])
         JUndefined (Some (Path ''items''))
       = JArr [JObj [(''id'', JNum 1)], JUndefined]"
  by (simp add: options_def extract_options_def get_def findOptionByValue_def)

section \<open>URL building\<close>

text \<open>
  C5. \<open>buildUrl\<close> appends the parameter map as query-string pairs, preceded by a
  percent-encoded \<open>search\<close> pair exactly when \<open>searchable\<close> is true and the search text
  is not empty. When there is at least one pair, the pairs are joined to the base url
  with \<open>&\<close> if the base url contains \<open>?\<close> and with \<open>?\<close> otherwise; with no pair the base
  url is returned as it is. The encoding leaves a string of letters, digits and
  \<open>* - . _\<close> as it is, and its output holds only such characters, \<open>%\<close> and \<open>+\<close>. In
  particular \<open>buildUrl("http://x/y", {a:1}, "foo", true) = "http://x/y?search=foo&a=1"\<close>
  and \<open>buildUrl("http://x/y?z=1", {}, "", false) = "http://x/y?z=1"\<close>; and with the base
  \<open>http://x/y?z=1\<close>, the parameters \<open>{"k k": "a&b/c", n: -120}\<close> and the search text
  \<open>x y\<close> the url is \<open>http://x/y?z=1&search=x+y&k+k=a%26b%2Fc&n=-120\<close>.
\<close>

theorem buildUrl_appends:
  "buildUrl baseUrl params searchTerm searchable =
     (let pairs = (if searchable \<and> searchTerm \<noteq> [] then [(''search'', searchTerm)] else [])
                  @ map (\<lambda>(key, v). (key, toString_param v)) params
      in if pairs = [] then baseUrl
         else baseUrl @ (if CHR ''?'' \<in> set baseUrl then ''&'' else ''?'')
              @ join ''&'' (map (\<lambda>(key, v). urlencode key @ ''='' @ urlencode v) pairs))
   \<and> (\<forall>c\<in>set (urlencode s). unreserved c \<or> c = CHR ''%'' \<or> c = CHR ''+'')
   \<and> ((\<forall>c\<in>set s. unreserved c) \<longrightarrow> urlencode s = s)
   \<and> (unreserved c \<longleftrightarrow>
        c \<in> set ''abcdefghijklmnopqrstuvwxyzABCDEFGHIJKLMNOPQRSTUVWXYZ0123456789*-._'')
   \<and> buildUrl ''http://x/y'' [(''a'', PNum 1)] ''foo'' True = ''http://x/y?search=foo&a=1''
   \<and> buildUrl ''http://x/y?z=1'' [] [] False = ''http://x/y?z=1''
   \<and> buildUrl ''http://x/y?z=1'' [(''k k'', PStr ''a&b/c''), (''n'', PNum (- 120))] ''x y'' True
       = ''http://x/y?z=1&search=x+y&k+k=a%26b%2Fc&n=-120''"
proof -
  have enc: "encode_pair = (\<lambda>(key, v). urlencode key @ ''='' @ urlencode v)"
    by (simp add: fun_eq_iff encode_pair_def)
  have general: "buildUrl b ps t f =
     (let pairs = (if f \<and> t \<noteq> [] then [(''search'', t)] else [])
                  @ map (\<lambda>(key, v). (key, toString_param v)) ps
      in if pairs = [] then b
         else b @ (if CHR ''?'' \<in> set b then ''&'' else ''?'')
              @ join ''&'' (map (\<lambda>(key, v). urlencode key @ ''='' @ urlencode v) pairs))"
    for b ps t f
    unfolding buildUrl_def Let_def fold_append_param searchParams_toString_empty
    by (simp add: append_param_def searchParams_toString_def enc)
  have ex1: "buildUrl ''http://x/y'' [(''a'', PNum 1)] ''foo'' True = ''http://x/y?search=foo&a=1''"
    unfolding general
    by (simp add: urlencode_def encode_byte_def unreserved_def numeral_defs)
  have ex2: "buildUrl ''http://x/y?z=1'' [] [] False = ''http://x/y?z=1''"
    unfolding general by simp
  have ex3: "buildUrl ''http://x/y?z=1'' [(''k k'', PStr ''a&b/c''), (''n'', PNum (- 120))]
       ''x y'' True = ''http://x/y?z=1&search=x+y&k+k=a%26b%2Fc&n=-120''"
    by (simp add: buildUrl_def append_param_def searchParams_toString_def encode_pair_def
        urlencode_def encode_byte_def unreserved_def hex_char_def numeral_defs)
  have safe: "\<forall>c\<in>set (urlencode s). unreserved c \<or> c = CHR ''%'' \<or> c = CHR ''+''"
    by (rule urlencode_safe)
  have same: "(\<forall>c\<in>set s. unreserved c) \<longrightarrow> urlencode s = s"
    using urlencode_unreserved by blast
  from general ex1 ex2 ex3 safe same unreserved_chars [of c] show ?thesis by blast
qed

theorem buildUrl_appends_witness:
  "unreserved (CHR ''f'') \<and> unreserved (CHR ''o'')
   \<and> urlencode ''foo'' = ''foo''
   \<and> \<not> unreserved (CHR ''&'')
   \<and> buildUrl ''http://x/y'' [(''a'', PNum 1)] ''foo'' True = ''http://x/y?search=foo&a=1''"
proof -
  note facts = buildUrl_appends [where s = "''foo''" and c = "CHR ''&''"
      and baseUrl = "''http://x/y''" and params = "[(''a'', PNum 1)]"
      and searchTerm = "''foo''" and searchable = True, THEN conjunct2, THEN conjunct2]
  have letters: "\<forall>c\<in>set ''foo''. unreserved c"
    by (simp add: unreserved_def)
  then have f: "unreserved (CHR ''f'')" and o: "unreserved (CHR ''o'')"
    by simp_all
  from facts [THEN conjunct1] letters have same: "urlencode ''foo'' = ''foo''"
    by (rule mp)
  from facts [THEN conjunct2, THEN conjunct1] have amp: "\<not> unreserved (CHR ''&'')"
    by simp
  note ex = facts [THEN conjunct2, THEN conjunct2, THEN conjunct1]
  from f o same amp ex show ?thesis
    by (intro conjI)
qed

section \<open>Path extraction\<close>

text \<open>
  C6. For a function spec the resolver returns the function's result as it is. For a
  dotted path it traverses the item segment by segment, and it returns \<open>undefined\<close>
  whenever a segment cannot be traversed, that is, whenever the value reached before
  some segment has no such property; the resolver has no failure branch. On the item
  \<open>{company: {name: "Acme"}}\<close> the path \<open>company.name\<close> yields \<open>"Acme"\<close> and the path
  \<open>company.missing.x\<close> yields \<open>undefined\<close>.
\<close>

theorem getValueFromPath_resolves:
  "getValueFromPath item (Fn f) = f item
   \<and> getValueFromPath item (Path p) = baseGet item (splitPath p)
   \<and> (splitPath p = pre @ seg # post \<and> getProp (baseGet item pre) seg = JUndefined
        \<longrightarrow> getValueFromPath item (Path p) = JUndefined)
   \<and> getValueFromPath (JObj [(''company'', JObj [(''name'', JStr ''Acme'')])])
        (Path ''company.name'') = JStr ''Acme''
   \<and> getValueFromPath (JObj [(''company'', JObj [(''name'', JStr ''Acme'')])])
        (Path ''company.missing.x'') = JUndefined"
proof -
  have "getValueFromPath item (Path p) = JUndefined"
    if "splitPath p = pre @ seg # post" and "getProp (baseGet item pre) seg = JUndefined"
  proof -
    have "baseGet item (pre @ seg # post) = baseGet (baseGet (baseGet item pre) [seg]) post"
      using baseGet_append [of item pre "seg # post"] baseGet_append [of "baseGet item pre" "[seg]" post]
      by simp
    moreover have "baseGet (baseGet item pre) [seg] = JUndefined"
      using that(2) by simp
    ultimately show ?thesis
      using that(1) by (simp add: get_def baseGet_undefined)
  qed
  then show ?thesis
    by (simp add: get_def)
qed

theorem getValueFromPath_resolves_witness:
  "splitPath ''company.missing.x'' = [''company''] @ ''missing'' # [''x'']
   \<and> getProp (baseGet (JObj [(''company'', JObj [(''name'', JStr ''Acme'')])]) [''company''])
        ''missing'' = JUndefined
   \<and> getValueFromPath (JObj [(''company'', JObj [(''name'', JStr ''Acme'')])])
        (Path ''company.missing.x'') = JUndefined"
  using getValueFromPath_resolves [where item = "JObj [(''company'', JObj [(''name'', JStr ''Acme'')])]"
      and p = "''company.missing.x''" and pre = "[''company'']" and seg = "''missing''"
      and post = "[''x'']"]
  by simp

section \<open>Pagination trigger\<close>

text \<open>
  C7. In paginated mode a scroll event invokes \<open>fetchNextPage\<close> exactly when the scroll
  position is within 50 units of the scrollable end, \<open>hasNextPage\<close> is true and no
  next-page fetch is in flight. A scroll event invokes it at most once, and never when
  \<open>hasNextPage\<close> is false or a next-page fetch is in flight. Outside paginated mode it
  is not invoked at all.
\<close>

theorem handleScroll_fetchNext:
  "(CallFetchNextPage \<in> set (handleScroll True q l)
      \<longleftrightarrow> scrollHeight l - (scrollTop l + clientHeight l) \<le> 50
          \<and> hasNextPage q \<and> \<not> isFetchingNextPage q)
   \<and> length (handleScroll infinite_flag q l) \<le> 1
   \<and> (\<not> hasNextPage q \<or> isFetchingNextPage q \<longrightarrow> handleScroll infinite_flag q l = [])
   \<and> handleScroll False q l = []"
  by (auto simp: handleScroll_def)

theorem handleScroll_fetchNext_witness:
  "handleScroll True \<lparr>hasNextPage = True, isFetchingNextPage = False\<rparr>
     \<lparr>scrollTop = 560, clientHeight = 400, scrollHeight = 1000\<rparr> = [CallFetchNextPage]
   \<and> handleScroll True \<lparr>hasNextPage = True, isFetchingNextPage = True\<rparr>
     \<lparr>scrollTop = 560, clientHeight = 400, scrollHeight = 1000\<rparr> = []
   \<and> handleScroll True \<lparr>hasNextPage = False, isFetchingNextPage = False\<rparr>
     \<lparr>scrollTop = 560, clientHeight = 400, scrollHeight = 1000\<rparr> = []
   \<and> CallFetchNextPage \<notin> set (handleScroll True \<lparr>hasNextPage = True, isFetchingNextPage = False\<rparr>
     \<lparr>scrollTop = 549, clientHeight = 400, scrollHeight = 1000\<rparr>)"
proof -
  let ?near = "\<lparr>scrollTop = 560, clientHeight = 400, scrollHeight = 1000\<rparr>"
  let ?far = "\<lparr>scrollTop = 549, clientHeight = 400, scrollHeight = 1000\<rparr>"
  let ?idle = "\<lparr>hasNextPage = True, isFetchingNextPage = False\<rparr>"
  have a: "CallFetchNextPage \<in> set (handleScroll True ?idle ?near)"
    and b: "length (handleScroll True ?idle ?near) \<le> 1"
    using handleScroll_fetchNext [of ?idle ?near True] by simp_all
  from a b have "handleScroll True ?idle ?near = [CallFetchNextPage]"
    by (cases "handleScroll True ?idle ?near") auto
  moreover have "handleScroll True \<lparr>hasNextPage = True, isFetchingNextPage = True\<rparr> ?near = []"
    using handleScroll_fetchNext [of "\<lparr>hasNextPage = True, isFetchingNextPage = True\<rparr>" ?near True]
    by simp
  moreover have "handleScroll True \<lparr>hasNextPage = False, isFetchingNextPage = False\<rparr> ?near = []"
    using handleScroll_fetchNext [of "\<lparr>hasNextPage = False, isFetchingNextPage = False\<rparr>" ?near True]
    by simp
  moreover have "CallFetchNextPage \<notin> set (handleScroll True ?idle ?far)"
    using handleScroll_fetchNext [of ?idle ?far True] by simp
  ultimately show ?thesis by simp
qed

section \<open>Focus gating\<close>

text \<open>
  C8, as the code has it. Before the first focus event neither query is enabled. From
  the first focus event on, whatever events follow, the focused state is true: no
  transition reverts it. Fetching is then enabled, and stays enabled, when the
  configuration is paginated or its url is a string; with a url function in
  single-page mode neither query is ever enabled.
\<close>

theorem focus_gating:
  "(FocusEvent \<notin> set es \<longrightarrow> \<not> fetch_enabled url infinite_flag (run g es))
   \<and> (FocusEvent \<in> set es \<longrightarrow>
        focusedInput (run g (es @ later))
        \<and> (infinite_flag \<or> is_string_url url
             \<longrightarrow> fetch_enabled url infinite_flag (run g (es @ later))))
   \<and> (\<not> infinite_flag \<and> \<not> is_string_url url \<longrightarrow> \<not> fetch_enabled url infinite_flag (run g es))"
  by (auto simp: run_focus_iff fetch_enabled_def regularQuery_enabled_def
      infiniteQuery_enabled_def)

theorem focus_gating_witness:
  "FocusEvent \<notin> set [InputChangeEvent ''a'']
   \<and> \<not> fetch_enabled (UrlString ''http://x/y'') False (run False [InputChangeEvent ''a''])
   \<and> FocusEvent \<in> set [InputChangeEvent ''a'', FocusEvent]
   \<and> (False \<or> is_string_url (UrlString ''http://x/y''))
   \<and> fetch_enabled (UrlString ''http://x/y'') False
        (run False ([InputChangeEvent ''a'', FocusEvent] @ [BlurEvent, InputChangeEvent ''ab'']))
   \<and> \<not> fetch_enabled (UrlFunction users_page_url) False (run False [FocusEvent, BlurEvent])"
  using focus_gating [of "[InputChangeEvent ''a'']" "UrlString ''http://x/y''" False False]
    focus_gating [of "[InputChangeEvent ''a'', FocusEvent]" "UrlString ''http://x/y''" False False
      "[BlurEvent, InputChangeEvent ''ab'']"]
    focus_gating [of "[FocusEvent, BlurEvent]" "UrlFunction users_page_url" False False]
  by simp

text \<open>
  A single-page configuration whose url is a function: after a focus event neither
  query is enabled.
\<close>

theorem focus_gating_counterexample:
  "FocusEvent \<in> set [FocusEvent]
   \<and> focusedInput (run False [FocusEvent])
   \<and> \<not> fetch_enabled (UrlFunction users_page_url) False (run False [FocusEvent])"
  by (simp add: fetch_enabled_def regularQuery_enabled_def infiniteQuery_enabled_def
      run_def initial_state_def handleFocus_def)

section \<open>Selection events\<close>

text \<open>
  C10, as the code has it. A change event whose chosen option is \<open>null\<close> invokes no
  callback, and neither does any change event when no \<open>onChange\<close> callback is
  configured. So whenever \<open>onChange\<close> is invoked, a callback is configured and the
  option it is invoked with is the chosen one and is not \<open>null\<close>. Clearing a selection
  does invoke the callback when the cleared selection is the empty list of a multiple
  selection: the empty list is truthy, and the callback is invoked with two empty
  lists.
\<close>

theorem handleChange_null:
  "handleChange onChange_given valueField JNull = []
   \<and> handleChange False valueField option = []
   \<and> (CallOnChange v opt \<in> set (handleChange onChange_given valueField option)
        \<longrightarrow> opt = option \<and> opt \<noteq> JNull \<and> onChange_given)
   \<and> handleChange True valueField (JArr []) = [CallOnChange (JArr []) (JArr [])]"
  by (auto simp: handleChange_def split: jsval.splits if_splits)

theorem handleChange_null_witness:
  "CallOnChange (JNum 1) (JObj [(''id'', JNum 1)])
     \<in> set (handleChange True (Path ''id'') (JObj [(''id'', JNum 1)]))
   \<and> JObj [(''id'', JNum 1)] \<noteq> JNull
   \<and> handleChange True (Path ''id'') JNull = []
   \<and> handleChange False (Path ''id'') (JObj [(''id'', JNum 1)]) = []"
  using handleChange_null [of True "Path ''id''" "JObj [(''id'', JNum 1)]" "JNum 1"
      "JObj [(''id'', JNum 1)]"]
  by (simp add: handleChange_def get_def)

text \<open>
  A cleared multiple selection: the chosen option is the empty list, and \<open>onChange\<close> is
  invoked.
\<close>

theorem handleChange_null_counterexample:
  "truthy (JArr [])
   \<and> handleChange True (Path ''id'') (JArr []) = [CallOnChange (JArr []) (JArr [])]
   \<and> handleChange True (Path ''id'') (JArr []) \<noteq> []"
  by (simp add: handleChange_def)

end
